theory Spec2Isabelle
  imports Main
begin

section \<open>The authentication service of the airline management project\<close>

text \<open>
  This theory embeds the user repository and the user service of the \<open>Auth_Service\<close>
  (\<^verbatim>\<open>UserRepository\<close> and \<^verbatim>\<open>UserService\<close>) and settles properties of
  registration, sign-in, token handling, session validation and the administrator check.

  JavaScript exceptions are values: every function that can throw returns
  \<open>error + 'a\<close>, with \<open>Inl\<close> for the thrown value. A \<^verbatim>\<open>try { ... } catch (error)
  { console.log(...); throw error; }\<close> block passes the thrown value on unchanged, so it is
  the identity on \<open>Inl\<close>; the log lines print fixed texts and are not part of the model.
  \<^verbatim>\<open>null\<close> is \<open>None\<close>. The database is an explicit \<open>store\<close> that the functions
  read, and that \<^verbatim>\<open>create\<close> and \<^verbatim>\<open>destroy\<close> return updated. The store always
  answers: a lost database connection is outside the model.
\<close>

subsection \<open>Tables\<close>

text \<open>
  A row of the \<^verbatim>\<open>User\<close> table (columns \<^verbatim>\<open>id\<close>, \<^verbatim>\<open>email\<close>, \<^verbatim>\<open>password\<close>), a row
  of the \<^verbatim>\<open>Role\<close> table, and the join table of the many-to-many association between
  them, as pairs (user id, role id).
\<close>

record user =
  user_id :: nat
  user_email :: string
  user_password :: string

record role =
  role_id :: nat
  role_name :: string

record store =
  users :: "user list"
  roles :: "role list"
  user_roles :: "(nat \<times> nat) list"
  next_user_id :: nat

text \<open>The object \<^verbatim>\<open>{ email, password }\<close> that the sign-up request hands to \<^verbatim>\<open>create\<close>.\<close>

record credentials =
  cred_email :: string
  cred_password :: string

text \<open>
  What \<^verbatim>\<open>findByPk(userId, { attributes: ['email', 'id'] })\<close> loads: the two named
  columns and nothing else.
\<close>

record user_attributes =
  attr_email :: string
  attr_id :: nat

subsection \<open>Thrown values\<close>

text \<open>
  \<^item> \<open>SequelizeError n\<close>: an error raised by the ORM, \<open>n\<close> its \<^verbatim>\<open>name\<close> property;
  \<^item> \<open>ValidationError e\<close>: \<^verbatim>\<open>new ValidationError(e)\<close>;
  \<^item> \<open>AppErrors n m x c\<close>: \<^verbatim>\<open>new AppErrors(n, m, x, c)\<close>;
  \<^item> \<open>TypeError p\<close>: the runtime's \<^verbatim>\<open>TypeError\<close> for reading property \<open>p\<close> of
    \<^verbatim>\<open>null\<close>;
  \<^item> \<open>SyntaxError\<close>: the runtime's \<^verbatim>\<open>SyntaxError\<close>, as \<^verbatim>\<open>JSON.parse\<close> throws it; its
    message depends on the text parsed;
  \<^item> \<open>Thrown m\<close>: the object literal \<^verbatim>\<open>{ error: m }\<close>, thrown as it is;
  \<^item> \<open>JsonWebTokenError m\<close> and \<open>TokenExpiredError m\<close>: the two error classes of the
    \<^verbatim>\<open>jsonwebtoken\<close> package, \<open>m\<close> the message.
\<close>

datatype error =
    SequelizeError string
  | ValidationError error
  | AppErrors string string string nat
  | TypeError string
  | SyntaxError
  | Thrown string
  | JsonWebTokenError string
  | TokenExpiredError string

subsection \<open>Tokens\<close>

text \<open>
  The object \<^verbatim>\<open>{ email, id }\<close> given to \<^verbatim>\<open>createToken\<close>, and the payload of a signed
  token: the same two fields plus the registered fields \<^verbatim>\<open>iat\<close> and \<^verbatim>\<open>exp\<close> (seconds
  since the epoch) that \<^verbatim>\<open>jwt.sign\<close> adds. A token that another signer made may carry no
  \<^verbatim>\<open>exp\<close>.
\<close>

record claims =
  claims_email :: string
  claims_id :: nat

record payload =
  payload_email :: string
  payload_id :: nat
  payload_iat :: nat
  payload_exp :: "nat option"

record jwt =
  jwt_payload :: payload
  jwt_signature :: string

text \<open>
  A payload need not be an object. Any holder of the key can sign a token whose payload is
  another JSON value, or a text that is no JSON at all, which \<^verbatim>\<open>jwt.verify\<close> hands back
  as a string. \<open>JNumber\<close> holds the integers; a fraction behaves as a nonzero integer does.
\<close>

datatype scalar = JNull | JBool bool | JNumber int | JString string

text \<open>What \<^verbatim>\<open>jwt.verify\<close> returns: the decoded payload, an object or not.\<close>

datatype decoded = Object payload | Scalar scalar

text \<open>
  A token is a string; the model keeps what \<^verbatim>\<open>jwt.verify\<close> makes of it. The classes
  follow the checks of the package in their order, and a string belongs to the first class
  whose condition it meets:
  \<^item> \<open>NoToken\<close>: nothing was sent (\<^verbatim>\<open>undefined\<close> or the empty string);
  \<^item> \<open>NotThreeSections\<close>: the string does not split at its dots into three sections;
  \<^item> \<open>Undecodable\<close>: three sections that do not decode (a character outside the
    alphabet, or a header that is not JSON), so that \<^verbatim>\<open>decode\<close> answers \<^verbatim>\<open>null\<close>;
  \<^item> \<open>NonJsonPayload\<close>: the header says \<^verbatim>\<open>typ: 'JWT'\<close> and the payload section is not
    JSON, so that \<^verbatim>\<open>JSON.parse\<close> throws inside \<^verbatim>\<open>decode\<close>;
  \<^item> \<open>Unsigned\<close>: the token decodes and its signature section is empty;
  \<^item> \<open>OtherAlgorithm\<close>: the header names an algorithm that is not an HMAC;
  \<^item> \<open>Encoded j\<close>: the token decodes into the object payload and the signature of \<open>j\<close>;
  \<^item> \<open>EncodedScalar v s\<close>: the token decodes into the payload \<open>v\<close>, not an object, and
    the signature \<open>s\<close>.
  An object payload has the fields of \<open>payload\<close>, as the tokens of this service have; the
  header of a signed token names HS256, the algorithm that \<^verbatim>\<open>jwt.sign\<close> uses.
\<close>

datatype token =
    NoToken
  | NotThreeSections
  | Undecodable
  | NonJsonPayload
  | Unsigned
  | OtherAlgorithm
  | Encoded jwt
  | EncodedScalar scalar string

subsection \<open>Configuration and libraries\<close>

text \<open>
  What the service takes from its configuration and from the packages it calls. None of it
  is code of the service, so each is a parameter, and every theorem holds for all of them:
  \<^item> \<open>JWT_KEY\<close>: the signing key of \<^verbatim>\<open>config/serverConfig\<close>;
  \<^item> \<open>hmac k p\<close>: the signature of the object payload \<open>p\<close> under key \<open>k\<close>
    (\<^verbatim>\<open>jsonwebtoken\<close>, HS256), and \<open>hmac_scalar k v\<close>: the same for a payload \<open>v\<close> that
    is not an object;
  \<^item> \<open>compareSync\<close> and \<open>hashSync\<close>: \<^verbatim>\<open>bcrypt\<close>; \<open>hashSync\<close> is the hash with the salt
    drawn for the call;
  \<^item> \<open>validates\<close>: the validators that the \<^verbatim>\<open>User\<close> model declares for a new row;
  \<^item> \<open>utils_error_name\<close>: the \<^verbatim>\<open>name\<close> property of an instance of the service's own error
    classes (\<^verbatim>\<open>utils/validation-error\<close>, \<^verbatim>\<open>utils/error-handler\<close>).
\<close>

record env =
  JWT_KEY :: string
  hmac :: "string \<Rightarrow> payload \<Rightarrow> string"
  hmac_scalar :: "string \<Rightarrow> scalar \<Rightarrow> string"
  compareSync :: "string \<Rightarrow> string \<Rightarrow> bool"
  hashSync :: "string \<Rightarrow> string"
  validates :: "credentials \<Rightarrow> bool"
  utils_error_name :: "error \<Rightarrow> string option"

text \<open>\<^verbatim>\<open>error.name\<close>; an object literal has no such property (\<open>None\<close>).\<close>

fun error_name :: "env \<Rightarrow> error \<Rightarrow> string option" where
  "error_name E (SequelizeError n) = Some n"
| "error_name E (ValidationError e) = utils_error_name E (ValidationError e)"
| "error_name E (AppErrors n m x c) = utils_error_name E (AppErrors n m x c)"
| "error_name E (TypeError p) = Some ''TypeError''"
| "error_name E SyntaxError = Some ''SyntaxError''"
| "error_name E (Thrown m) = None"
| "error_name E (JsonWebTokenError m) = Some ''JsonWebTokenError''"
| "error_name E (TokenExpiredError m) = Some ''TokenExpiredError''"

subsection \<open>The \<^verbatim>\<open>jsonwebtoken\<close> package\<close>

text \<open>
  \<^verbatim>\<open>jwt.sign(user, key, { expiresIn })\<close> at clock time \<open>now\<close>: the payload is the given
  object with \<^verbatim>\<open>iat = now\<close> and \<^verbatim>\<open>exp = now + expiresIn\<close>, signed under the key.
\<close>

definition jwt_sign :: "env \<Rightarrow> claims \<Rightarrow> string \<Rightarrow> nat \<Rightarrow> nat \<Rightarrow> token" where
  "jwt_sign E c key expiresIn now =
     (let p = \<lparr>payload_email = claims_email c, payload_id = claims_id c,
               payload_iat = now, payload_exp = Some (now + expiresIn)\<rparr>
      in Encoded \<lparr>jwt_payload = p, jwt_signature = hmac E key p\<rparr>)"

text \<open>
  \<^verbatim>\<open>jwt.verify(token, key)\<close> at clock time \<open>now\<close>, in the order of the package:
  \<^item> no token: \<^verbatim>\<open>JsonWebTokenError('jwt must be provided')\<close>;
  \<^item> not three sections: \<^verbatim>\<open>JsonWebTokenError('jwt malformed')\<close>;
  \<^item> \<^verbatim>\<open>decode\<close> throws: the error is passed on as it is, the \<^verbatim>\<open>SyntaxError\<close> of
    \<^verbatim>\<open>JSON.parse\<close>; \<^verbatim>\<open>decode\<close> answers \<^verbatim>\<open>null\<close>: \<^verbatim>\<open>JsonWebTokenError('invalid token')\<close>;
  \<^item> empty signature section: \<^verbatim>\<open>JsonWebTokenError('jwt signature is required')\<close>;
  \<^item> an algorithm outside the HMAC ones that a secret key admits:
    \<^verbatim>\<open>JsonWebTokenError('invalid algorithm')\<close>;
  \<^item> the signature is not the one of the payload under the key:
    \<^verbatim>\<open>JsonWebTokenError('invalid signature')\<close>;
  \<^item> then \<^verbatim>\<open>payload.nbf\<close> and \<^verbatim>\<open>payload.exp\<close> are read. On the payload \<^verbatim>\<open>null\<close> the
    read is a \<^verbatim>\<open>TypeError\<close>; on a boolean, a number or a string both are \<^verbatim>\<open>undefined\<close>
    and nothing is checked; on an object with an \<^verbatim>\<open>exp\<close>, \<^verbatim>\<open>now >= exp\<close> is
    \<^verbatim>\<open>TokenExpiredError('jwt expired')\<close>;
  \<^item> the decoded payload is returned.
  The service passes no options, and the object payloads of the model carry no
  \<^verbatim>\<open>nbf\<close> field, so the checks of audience, issuer and start of validity do not arise.
\<close>

fun jwt_verify :: "env \<Rightarrow> token \<Rightarrow> string \<Rightarrow> nat \<Rightarrow> error + decoded" where
  "jwt_verify E NoToken key now = Inl (JsonWebTokenError ''jwt must be provided'')"
| "jwt_verify E NotThreeSections key now = Inl (JsonWebTokenError ''jwt malformed'')"
| "jwt_verify E Undecodable key now = Inl (JsonWebTokenError ''invalid token'')"
| "jwt_verify E NonJsonPayload key now = Inl SyntaxError"
| "jwt_verify E Unsigned key now = Inl (JsonWebTokenError ''jwt signature is required'')"
| "jwt_verify E OtherAlgorithm key now = Inl (JsonWebTokenError ''invalid algorithm'')"
| "jwt_verify E (Encoded j) key now =
     (if jwt_signature j \<noteq> hmac E key (jwt_payload j)
      then Inl (JsonWebTokenError ''invalid signature'')
      else case payload_exp (jwt_payload j) of
             None \<Rightarrow> Inr (Object (jwt_payload j))
           | Some e \<Rightarrow> if e \<le> now then Inl (TokenExpiredError ''jwt expired'')
                       else Inr (Object (jwt_payload j)))"
| "jwt_verify E (EncodedScalar v s) key now =
     (if s \<noteq> hmac_scalar E key v
      then Inl (JsonWebTokenError ''invalid signature'')
      else case v of
             JNull \<Rightarrow> Inl (TypeError ''nbf'')
           | _ \<Rightarrow> Inr (Scalar v))"

text \<open>The time span \<^verbatim>\<open>'1d'\<close>, in seconds.\<close>

definition one_day :: nat where
  "one_day = 86400"

subsection \<open>The ORM\<close>

text \<open>
  \<^verbatim>\<open>User.findByPk(id)\<close>, \<^verbatim>\<open>User.findOne({ where: { email } })\<close> and
  \<^verbatim>\<open>Role.findOne({ where: { name } })\<close>: the first matching row, or \<^verbatim>\<open>null\<close>.
\<close>

definition User_findByPk :: "store \<Rightarrow> nat \<Rightarrow> user option" where
  "User_findByPk S k = find (\<lambda>u. user_id u = k) (users S)"

definition User_findOne :: "store \<Rightarrow> string \<Rightarrow> user option" where
  "User_findOne S e = find (\<lambda>u. user_email u = e) (users S)"

definition Role_findOne :: "store \<Rightarrow> string \<Rightarrow> role option" where
  "Role_findOne S n = find (\<lambda>r. role_name r = n) (roles S)"

text \<open>
  \<^verbatim>\<open>User.destroy({ where: { id } })\<close> removes the rows of the \<^verbatim>\<open>User\<close> table with
  that id; the other tables are left as they are.
\<close>

definition User_destroy :: "store \<Rightarrow> nat \<Rightarrow> store" where
  "User_destroy S k = S\<lparr>users := filter (\<lambda>u. user_id u \<noteq> k) (users S)\<rparr>"

text \<open>
  Modelled from the spec: the \<^verbatim>\<open>User\<close> and \<^verbatim>\<open>Role\<close> models (\<^verbatim>\<open>models/user.js\<close>,
  \<^verbatim>\<open>models/role.js\<close>), which declare the association behind \<^verbatim>\<open>user.hasRole\<close>, are
  missing from the sources at hand. The spec: the store is asked "whether the membership
  edge exists", and "a non-existent role name is treated as no membership (returns false)
  rather than an error".
\<close>

definition hasRole :: "store \<Rightarrow> user \<Rightarrow> role option \<Rightarrow> bool" where
  "hasRole S u r =
     (case r of None \<Rightarrow> False
      | Some a \<Rightarrow> (user_id u, role_id a) \<in> set (user_roles S))"

text \<open>
  Modelled from the spec: \<^verbatim>\<open>User.create\<close> runs the \<^verbatim>\<open>User\<close> model
  (\<^verbatim>\<open>models/user.js\<close>), which is missing from the sources at hand; the service itself hands
  the plaintext on and never calls a hash function. The spec: registration "computes
  hash(plaintext), asks the Credential Store to persist a new Account with that email and
  hash", and fails "when the store reports a uniqueness violation (e.g., email already
  registered)"; the identity is "store-assigned". The call returns the row it has written.
\<close>

definition User_create :: "env \<Rightarrow> store \<Rightarrow> credentials \<Rightarrow> error + user \<times> store" where
  "User_create E S d =
     (if \<not> validates E d then Inl (SequelizeError ''SequelizeValidationError'')
      else case User_findOne S (cred_email d) of
             Some other \<Rightarrow> Inl (SequelizeError ''SequelizeUniqueConstraintError'')
           | None \<Rightarrow>
               (let u = \<lparr>user_id = next_user_id S, user_email = cred_email d,
                         user_password = hashSync E (cred_password d)\<rparr>
                in Inr (u, S\<lparr>users := users S @ [u],
                              next_user_id := Suc (next_user_id S)\<rparr>)))"

subsection \<open>\<^verbatim>\<open>UserRepository\<close>\<close>

definition UserRepository_create :: "env \<Rightarrow> store \<Rightarrow> credentials \<Rightarrow> error + user \<times> store" where
  "UserRepository_create E S d =
     (case User_create E S d of
        Inr r \<Rightarrow> Inr r
      | Inl e \<Rightarrow> if error_name E e = Some ''SequelizeValidationError''
                 then Inl (ValidationError e) else Inl e)"

definition UserRepository_destroy :: "store \<Rightarrow> nat \<Rightarrow> bool \<times> store" where
  "UserRepository_destroy S userId = (True, User_destroy S userId)"

definition UserRepository_getById :: "store \<Rightarrow> nat \<Rightarrow> user_attributes option" where
  "UserRepository_getById S userId =
     map_option (\<lambda>u. \<lparr>attr_email = user_email u, attr_id = user_id u\<rparr>)
       (User_findByPk S userId)"

definition UserRepository_getByEmail :: "store \<Rightarrow> string \<Rightarrow> user option" where
  "UserRepository_getByEmail S userEmail = User_findOne S userEmail"

text \<open>
  \<^verbatim>\<open>isAdmin\<close> fetches the user and the role named \<^verbatim>\<open>'ADMIN'\<close>, then calls
  \<^verbatim>\<open>user.hasRole(adminRole)\<close> with no check of \<^verbatim>\<open>user\<close>: on \<^verbatim>\<open>null\<close> the call is a
  \<^verbatim>\<open>TypeError\<close>.
\<close>

definition UserRepository_isAdmin :: "store \<Rightarrow> nat \<Rightarrow> error + bool" where
  "UserRepository_isAdmin S userId =
     (let user = User_findByPk S userId;
          adminRole = Role_findOne S ''ADMIN''
      in case user of
           None \<Rightarrow> Inl (TypeError ''hasRole'')
         | Some u \<Rightarrow> Inr (hasRole S u adminRole))"

subsection \<open>\<^verbatim>\<open>UserService\<close>\<close>

definition UserService_create :: "env \<Rightarrow> store \<Rightarrow> credentials \<Rightarrow> error + user \<times> store" where
  "UserService_create E S d =
     (case UserRepository_create E S d of
        Inr r \<Rightarrow> Inr r
      | Inl e \<Rightarrow> if error_name E e = Some ''SequelizeValidationError''
                 then Inl e
                 else Inl (AppErrors ''ServerError''
                             ''Something went wrong in the service layer''
                             ''Logical issue found'' 500))"

definition createToken :: "env \<Rightarrow> nat \<Rightarrow> claims \<Rightarrow> token" where
  "createToken E now u = jwt_sign E u (JWT_KEY E) one_day now"

definition verifyToken :: "env \<Rightarrow> nat \<Rightarrow> token \<Rightarrow> error + decoded" where
  "verifyToken E now t = jwt_verify E t (JWT_KEY E) now"

definition checkPassword :: "env \<Rightarrow> string \<Rightarrow> string \<Rightarrow> bool" where
  "checkPassword E userInputPlainPassword encryptedPassword =
     compareSync E userInputPlainPassword encryptedPassword"

text \<open>
  \<^verbatim>\<open>signIn\<close> reads \<^verbatim>\<open>user.password\<close> right after the lookup, with no check of
  \<^verbatim>\<open>user\<close>: on \<^verbatim>\<open>null\<close> the read is a \<^verbatim>\<open>TypeError\<close>.
\<close>

definition signIn :: "env \<Rightarrow> nat \<Rightarrow> store \<Rightarrow> string \<Rightarrow> string \<Rightarrow> error + token" where
  "signIn E now S email plainPassword =
     (case UserRepository_getByEmail S email of
        None \<Rightarrow> Inl (TypeError ''password'')
      | Some user \<Rightarrow>
          if \<not> checkPassword E plainPassword (user_password user)
          then Inl (Thrown ''Incorrect password'')
          else Inr (createToken E now
                      \<lparr>claims_email = user_email user, claims_id = user_id user\<rparr>))"

text \<open>
  Truthiness, as \<^verbatim>\<open>!response\<close> tests it: every object is truthy; \<^verbatim>\<open>null\<close>,
  \<^verbatim>\<open>false\<close>, \<^verbatim>\<open>0\<close> and the empty string are falsy.
\<close>

fun truthy :: "decoded \<Rightarrow> bool" where
  "truthy (Object p) = True"
| "truthy (Scalar JNull) = False"
| "truthy (Scalar (JBool b)) = b"
| "truthy (Scalar (JNumber n)) = (n \<noteq> 0)"
| "truthy (Scalar (JString s)) = (s \<noteq> [])"

text \<open>
  \<^verbatim>\<open>response.id\<close>: the field of an object payload; on a boolean, a number or a string
  the read gives \<^verbatim>\<open>undefined\<close> (\<open>None\<close>). The read comes after the test
  \<^verbatim>\<open>!response\<close>, so it never meets \<^verbatim>\<open>null\<close>, which \<^verbatim>\<open>verifyToken\<close> does not return
  either.
\<close>

fun property_id :: "decoded \<Rightarrow> nat option" where
  "property_id (Object p) = Some (payload_id p)"
| "property_id (Scalar v) = None"

text \<open>
  \<^verbatim>\<open>getById(response.id)\<close>: for an \<^verbatim>\<open>undefined\<close> key \<^verbatim>\<open>findByPk\<close> answers \<^verbatim>\<open>null\<close>
  without a query.
\<close>

definition isAuthenticated :: "env \<Rightarrow> nat \<Rightarrow> store \<Rightarrow> token \<Rightarrow> error + bool" where
  "isAuthenticated E now S t =
     (case verifyToken E now t of
        Inl e \<Rightarrow> Inl e
      | Inr response \<Rightarrow>
          if \<not> truthy response then Inl (Thrown ''Invalid token'')
          else (case Option.bind (property_id response) (UserRepository_getById S) of
                  None \<Rightarrow> Inl (Thrown ''No user with the corresponding token exists'')
                | Some user \<Rightarrow> Inr True))"

definition UserService_isAdmin :: "store \<Rightarrow> nat \<Rightarrow> error + bool" where
  "UserService_isAdmin S userId = UserRepository_isAdmin S userId"

subsection \<open>A concrete installation\<close>

text \<open>
  Stand-ins for the libraries, simple enough to compute with, and a store with two
  accounts and two roles; account 1 is an administrator.
\<close>

definition E0 :: env where
  "E0 = \<lparr>JWT_KEY = ''k3y'',
         hmac = (\<lambda>k p. k @ payload_email p),
         hmac_scalar =
           (\<lambda>k v. k @ (case v of JNull \<Rightarrow> ''null''
                          | JBool b \<Rightarrow> (if b then ''true'' else ''false'')
                          | JNumber n \<Rightarrow> (if n = 0 then ''0'' else ''n'')
                          | JString s \<Rightarrow> s)),
         compareSync = (\<lambda>p h. h = ''$2b$'' @ rev p),
         hashSync = (\<lambda>p. ''$2b$'' @ rev p),
         validates = (\<lambda>d. cred_email d \<noteq> [] \<and> cred_password d \<noteq> []),
         utils_error_name =
           (\<lambda>e. case e of ValidationError (SequelizeError n) \<Rightarrow> Some n
                 | AppErrors n m x c \<Rightarrow> Some n
                 | _ \<Rightarrow> None)\<rparr>"

definition S0 :: store where
  "S0 = \<lparr>users = [\<lparr>user_id = 1, user_email = ''a@x.com'', user_password = ''$2b$321wp''\<rparr>,
                  \<lparr>user_id = 2, user_email = ''b@x.com'', user_password = ''$2b$terces''\<rparr>],
         roles = [\<lparr>role_id = 1, role_name = ''ADMIN''\<rparr>,
                  \<lparr>role_id = 2, role_name = ''CUSTOMER''\<rparr>],
         user_roles = [(1, 1), (2, 2)],
         next_user_id = 3\<rparr>"


section \<open>Properties\<close>

subsection \<open>Shared facts\<close>

lemma find_None_image: "find (\<lambda>u. f u = k) xs = None \<longleftrightarrow> k \<notin> f ` set xs"
  by (induction xs) auto

lemma verifyToken_accepts:
  "jwt_signature j = hmac E (JWT_KEY E) (jwt_payload j) \<Longrightarrow>
   (case payload_exp (jwt_payload j) of None \<Rightarrow> True | Some e \<Rightarrow> now < e) \<Longrightarrow>
   verifyToken E now (Encoded j) = Inr (Object (jwt_payload j))"
  by (simp add: verifyToken_def split: option.splits)

lemma verifyToken_Object:
  "verifyToken E now t = Inr (Object p) \<Longrightarrow>
   \<exists>j. t = Encoded j \<and> p = jwt_payload j \<and>
       jwt_signature j = hmac E (JWT_KEY E) (jwt_payload j) \<and>
       (case payload_exp (jwt_payload j) of None \<Rightarrow> True | Some e \<Rightarrow> now < e)"
  by (cases t) (auto simp: verifyToken_def split: if_splits option.splits scalar.splits)

lemma verifyToken_Scalar:
  "verifyToken E now t = Inr (Scalar v) \<longleftrightarrow>
   t = EncodedScalar v (hmac_scalar E (JWT_KEY E) v) \<and> v \<noteq> JNull"
  by (cases t) (auto simp: verifyToken_def split: if_splits option.splits scalar.splits)

lemma verifyToken_error:
  "verifyToken E now t = Inl e \<Longrightarrow>
   (\<exists>m. e = JsonWebTokenError m) \<or> (\<exists>m. e = TokenExpiredError m) \<or>
   e = SyntaxError \<or> e = TypeError ''nbf''"
  by (cases t) (auto simp: verifyToken_def split: if_splits option.splits scalar.splits)

subsection \<open>Sign-in\<close>

text \<open>
  The three outcomes of \<^verbatim>\<open>signIn\<close>, by the row that the lookup by email finds.
\<close>

lemma signIn_no_user:
  "User_findOne S email = None \<Longrightarrow> signIn E now S email pw = Inl (TypeError ''password'')"
  by (simp add: signIn_def UserRepository_getByEmail_def)

lemma signIn_wrong_password:
  "User_findOne S email = Some u \<Longrightarrow> \<not> compareSync E pw (user_password u) \<Longrightarrow>
   signIn E now S email pw = Inl (Thrown ''Incorrect password'')"
  by (simp add: signIn_def UserRepository_getByEmail_def checkPassword_def)

lemma signIn_token:
  "User_findOne S email = Some u \<Longrightarrow> compareSync E pw (user_password u) \<Longrightarrow>
   signIn E now S email pw =
     Inr (createToken E now \<lparr>claims_email = user_email u, claims_id = user_id u\<rparr>)"
  by (simp add: signIn_def UserRepository_getByEmail_def checkPassword_def)

text \<open>
  C2. Sign-in with an email that no account has should fail with the error for a missing
  account. Here no row has the email \<^verbatim>\<open>nobody@x.com\<close>: \<^verbatim>\<open>getByEmail\<close> returns
  \<^verbatim>\<open>null\<close>, and \<^verbatim>\<open>signIn\<close> fails on reading \<^verbatim>\<open>user.password\<close>, with the runtime's
  \<^verbatim>\<open>TypeError\<close>.
\<close>

theorem signIn_unknown_email_TypeError:
  "signIn E0 50 S0 ''nobody@x.com'' ''pw123'' = Inl (TypeError ''password'')"
  by (simp add: signIn_def UserRepository_getByEmail_def User_findOne_def S0_def)

subsection \<open>Registration\<close>

text \<open>
  C3. When \<^verbatim>\<open>UserService.create\<close> succeeds, the store has gained exactly one row, the
  row returned; its email is the given one and its password column holds
  \<open>hashSync\<close> of the plaintext. Nothing else of the store has changed, so the plaintext is
  written nowhere.
\<close>

theorem create_persists_hash:
  assumes "UserService_create E S d = Inr (u, S')"
  shows "S' = S\<lparr>users := users S @ [u], next_user_id := Suc (next_user_id S)\<rparr> \<and>
         user_email u = cred_email d \<and>
         user_password u = hashSync E (cred_password d)"
  using assms
  by (auto simp: UserService_create_def UserRepository_create_def User_create_def Let_def
        split: sum.splits if_splits option.splits)

theorem create_persists_hash_witness:
  "UserService_create E0 S0 \<lparr>cred_email = ''c@x.com'', cred_password = ''pw123''\<rparr> =
     Inr (\<lparr>user_id = 3, user_email = ''c@x.com'', user_password = ''$2b$321wp''\<rparr>,
          S0\<lparr>users := users S0 @
                 [\<lparr>user_id = 3, user_email = ''c@x.com'', user_password = ''$2b$321wp''\<rparr>],
              next_user_id := 4\<rparr>) \<and>
   hashSync E0 ''pw123'' = ''$2b$321wp'' \<and> ''$2b$321wp'' \<noteq> ''pw123''"
proof -
  have run: "UserService_create E0 S0 \<lparr>cred_email = ''c@x.com'', cred_password = ''pw123''\<rparr> =
     Inr (\<lparr>user_id = 3, user_email = ''c@x.com'', user_password = ''$2b$321wp''\<rparr>,
          S0\<lparr>users := users S0 @
                 [\<lparr>user_id = 3, user_email = ''c@x.com'', user_password = ''$2b$321wp''\<rparr>],
              next_user_id := 4\<rparr>)"
    by (simp add: UserService_create_def UserRepository_create_def User_create_def
          User_findOne_def Let_def E0_def S0_def)
  show ?thesis
    using run create_persists_hash [OF run] by (simp add: E0_def S0_def)
qed

text \<open>
  C8. Registration should hand back the identity and the email only. Here the object that
  \<^verbatim>\<open>UserService.create\<close> returns for a new account is the row that was written, and its
  \<^verbatim>\<open>password\<close> field holds the stored hash.
\<close>

theorem create_returns_password_hash:
  "(case UserService_create E0 S0 \<lparr>cred_email = ''c@x.com'', cred_password = ''pw123''\<rparr> of
      Inl e \<Rightarrow> False
    | Inr (u, S') \<Rightarrow> user_password u = ''$2b$321wp'' \<and> User_findOne S' ''c@x.com'' = Some u)"
  by (simp add: UserService_create_def UserRepository_create_def User_create_def
        User_findOne_def Let_def E0_def S0_def)


subsection \<open>Tokens\<close>

text \<open>
  C4. A token issued from the claims \<open>c\<close> at time \<open>now\<close> and verified at any time
  \<open>t\<close> before its expiry \<open>now + one_day\<close> is accepted, and the decoded payload carries
  the email and the identity of \<open>c\<close> unchanged, next to the issue and expiry times that
  signing has added.
\<close>

theorem verifyToken_createToken:
  "t < now + one_day \<Longrightarrow>
   verifyToken E t (createToken E now c) =
     Inr (Object \<lparr>payload_email = claims_email c, payload_id = claims_id c,
                  payload_iat = now, payload_exp = Some (now + one_day)\<rparr>)"
  by (simp add: verifyToken_def createToken_def jwt_sign_def Let_def)

theorem verifyToken_createToken_witness:
  "(100::nat) < 50 + one_day \<and>
   verifyToken E0 100 (createToken E0 50 \<lparr>claims_email = ''a@x.com'', claims_id = 1\<rparr>) =
     Inr (Object \<lparr>payload_email = ''a@x.com'', payload_id = 1,
                  payload_iat = 50, payload_exp = Some (50 + one_day)\<rparr>)"
proof -
  have h: "(100::nat) < 50 + one_day"
    by (simp add: one_day_def)
  show ?thesis
    using h verifyToken_createToken [OF h, of E0 "\<lparr>claims_email = ''a@x.com'', claims_id = 1\<rparr>"]
    by simp
qed




subsection \<open>Session validation\<close>

text \<open>
  What \<^verbatim>\<open>isAuthenticated\<close> returns for a token whose signature is right, that has not
  expired and whose identity is the id of a row of the \<^verbatim>\<open>User\<close> table: the boolean
  \<^verbatim>\<open>true\<close>, for every such token.
\<close>

lemma isAuthenticated_returns_true:
  assumes "jwt_signature j = hmac E (JWT_KEY E) (jwt_payload j)"
    and "case payload_exp (jwt_payload j) of None \<Rightarrow> True | Some e \<Rightarrow> now < e"
    and "payload_id (jwt_payload j) \<in> user_id ` set (users S)"
  shows "isAuthenticated E now S (Encoded j) = Inr True"
proof -
  have v: "verifyToken E now (Encoded j) = Inr (Object (jwt_payload j))"
    using assms(1,2) by (rule verifyToken_accepts)
  have "User_findByPk S (payload_id (jwt_payload j)) \<noteq> None"
    using assms(3) by (simp add: User_findByPk_def find_None_image)
  then have "UserRepository_getById S (payload_id (jwt_payload j)) \<noteq> None"
    by (simp add: UserRepository_getById_def)
  with v show ?thesis
    by (auto simp: isAuthenticated_def)
qed

text \<open>
  C1. Session validation should return the identity and the email of the account. Here
  the tokens issued to accounts 1 and 2 at time 50 are validated at time 100, both
  accounts being in the store: \<^verbatim>\<open>isAuthenticated\<close> drops the object with \<^verbatim>\<open>email\<close> and
  \<^verbatim>\<open>id\<close> that \<^verbatim>\<open>getById\<close> has fetched and returns the boolean \<^verbatim>\<open>true\<close>, the same
  value for both accounts, from which neither identity nor email can be read.
\<close>

theorem isAuthenticated_flag_only:
  "isAuthenticated E0 100 S0
     (createToken E0 50 \<lparr>claims_email = ''a@x.com'', claims_id = 1\<rparr>) = Inr True \<and>
   isAuthenticated E0 100 S0
     (createToken E0 50 \<lparr>claims_email = ''b@x.com'', claims_id = 2\<rparr>) = Inr True"
  by (simp add: isAuthenticated_def verifyToken_def createToken_def jwt_sign_def
        one_day_def E0_def S0_def UserRepository_getById_def User_findByPk_def)

text \<open>
  C6. For a token whose signature is right and that has not expired, but whose identity
  is the id of no row of the \<^verbatim>\<open>User\<close> table, \<^verbatim>\<open>isAuthenticated\<close> fails with the object
  \<^verbatim>\<open>{ error: 'No user with the corresponding token exists' }\<close>.
\<close>

theorem isAuthenticated_account_gone:
  assumes "jwt_signature j = hmac E (JWT_KEY E) (jwt_payload j)"
    and "case payload_exp (jwt_payload j) of None \<Rightarrow> True | Some e \<Rightarrow> now < e"
    and "payload_id (jwt_payload j) \<notin> user_id ` set (users S)"
  shows "isAuthenticated E now S (Encoded j) =
           Inl (Thrown ''No user with the corresponding token exists'')"
proof -
  have v: "verifyToken E now (Encoded j) = Inr (Object (jwt_payload j))"
    using assms(1,2) by (rule verifyToken_accepts)
  have "User_findByPk S (payload_id (jwt_payload j)) = None"
    using assms(3) by (simp add: User_findByPk_def find_None_image)
  then have "UserRepository_getById S (payload_id (jwt_payload j)) = None"
    by (simp add: UserRepository_getById_def)
  with v show ?thesis
    by (simp add: isAuthenticated_def)
qed

text \<open>
  The witness: account 1 signs in at time 50 and is deleted afterwards; at time 100 its
  token is rejected.
\<close>

theorem isAuthenticated_account_gone_witness:
  "signIn E0 50 S0 ''a@x.com'' ''pw123'' =
     Inr (Encoded \<lparr>jwt_payload = \<lparr>payload_email = ''a@x.com'', payload_id = 1,
                      payload_iat = 50, payload_exp = Some 86450\<rparr>,
                   jwt_signature = ''k3ya@x.com''\<rparr>) \<and>
   ''k3ya@x.com'' = hmac E0 (JWT_KEY E0) \<lparr>payload_email = ''a@x.com'', payload_id = 1,
                     payload_iat = 50, payload_exp = Some 86450\<rparr> \<and>
   (100::nat) < 86450 \<and>
   (1::nat) \<notin> user_id ` set (users (snd (UserRepository_destroy S0 1))) \<and>
   isAuthenticated E0 100 (snd (UserRepository_destroy S0 1))
     (Encoded \<lparr>jwt_payload = \<lparr>payload_email = ''a@x.com'', payload_id = 1,
                  payload_iat = 50, payload_exp = Some 86450\<rparr>,
               jwt_signature = ''k3ya@x.com''\<rparr>) =
     Inl (Thrown ''No user with the corresponding token exists'')"
  using isAuthenticated_account_gone [of
      "\<lparr>jwt_payload = \<lparr>payload_email = ''a@x.com'', payload_id = 1,
                       payload_iat = 50, payload_exp = Some 86450\<rparr>,
        jwt_signature = ''k3ya@x.com''\<rparr>" E0 100 "snd (UserRepository_destroy S0 1)"]
  by (simp add: E0_def S0_def UserRepository_destroy_def User_destroy_def signIn_def
        UserRepository_getByEmail_def User_findOne_def checkPassword_def createToken_def
        jwt_sign_def one_day_def)

text \<open>
  C9, as the claim has it: \<^verbatim>\<open>verifyToken\<close> would never return a falsy value, so that the
  branch \<^verbatim>\<open>if (!response)\<close> of \<^verbatim>\<open>isAuthenticated\<close> could not run. Here the token
  carries the payload \<^verbatim>\<open>0\<close> and the signature of that payload under the service's key:
  \<^verbatim>\<open>verifyToken\<close> returns \<^verbatim>\<open>0\<close>, and \<^verbatim>\<open>isAuthenticated\<close> throws
  \<^verbatim>\<open>{ error: 'Invalid token' }\<close>.
\<close>

theorem invalid_token_branch_reached:
  "verifyToken E0 100 (EncodedScalar (JNumber 0) ''k3y0'') = Inr (Scalar (JNumber 0)) \<and>
   isAuthenticated E0 100 S0 (EncodedScalar (JNumber 0) ''k3y0'') =
     Inl (Thrown ''Invalid token'')"
  by (simp add: isAuthenticated_def verifyToken_def E0_def)

text \<open>
  C9, as the code has it. The branch \<^verbatim>\<open>if (!response)\<close> runs for exactly the tokens that
  carry one of the payloads \<^verbatim>\<open>false\<close>, \<^verbatim>\<open>0\<close> and the empty string together with the
  signature of that payload under the service's key. For every other token
  \<^verbatim>\<open>verifyToken\<close> throws or returns a truthy value; among them is every token with an object
  payload, hence every token that \<^verbatim>\<open>createToken\<close> issues.
\<close>

theorem invalid_token_branch_only_falsy_payload:
  "(isAuthenticated E now S t = Inl (Thrown ''Invalid token'') \<longleftrightarrow>
      (\<exists>v. t = EncodedScalar v (hmac_scalar E (JWT_KEY E) v) \<and>
           (v = JBool False \<or> v = JNumber 0 \<or> v = JString []))) \<and>
   isAuthenticated E now S (Encoded j) \<noteq> Inl (Thrown ''Invalid token'') \<and>
   isAuthenticated E now S (createToken E issued c) \<noteq> Inl (Thrown ''Invalid token'')"
proof (intro conjI)
  show "isAuthenticated E now S t = Inl (Thrown ''Invalid token'') \<longleftrightarrow>
      (\<exists>v. t = EncodedScalar v (hmac_scalar E (JWT_KEY E) v) \<and>
           (v = JBool False \<or> v = JNumber 0 \<or> v = JString []))"
  proof (cases "verifyToken E now t")
    case (Inl e)
    then have "isAuthenticated E now S t = Inl e"
      by (simp add: isAuthenticated_def)
    moreover have "e \<noteq> Thrown ''Invalid token''"
      using verifyToken_error [OF Inl] by auto
    moreover have "\<not> (\<exists>v. t = EncodedScalar v (hmac_scalar E (JWT_KEY E) v) \<and>
           (v = JBool False \<or> v = JNumber 0 \<or> v = JString []))"
      using Inl by (auto simp: verifyToken_def)
    ultimately show ?thesis by simp
  next
    case (Inr r)
    show ?thesis
    proof (cases r)
      case (Object p)
      with Inr obtain j' where "t = Encoded j'"
        using verifyToken_Object by blast
      with Inr Object show ?thesis
        by (auto simp: isAuthenticated_def split: option.splits)
    next
      case (Scalar v)
      with Inr have t: "t = EncodedScalar v (hmac_scalar E (JWT_KEY E) v)" and "v \<noteq> JNull"
        by (simp_all add: verifyToken_Scalar)
      with Inr Scalar show ?thesis
        by (cases v) (auto simp: isAuthenticated_def)
    qed
  qed
next
  show obj: "isAuthenticated E now S (Encoded j) \<noteq> Inl (Thrown ''Invalid token'')" for j
    by (simp add: isAuthenticated_def verifyToken_def split: option.splits)
  show "isAuthenticated E now S (createToken E issued c) \<noteq> Inl (Thrown ''Invalid token'')"
    using obj by (simp add: createToken_def jwt_sign_def Let_def)
qed

text \<open>
  The witness: the payload \<^verbatim>\<open>false\<close> under its right signature reaches the branch; the
  same payload under a forged signature, and the token issued to account 1, do not.
\<close>

theorem invalid_token_branch_only_falsy_payload_witness:
  "''k3yfalse'' = hmac_scalar E0 (JWT_KEY E0) (JBool False) \<and>
   isAuthenticated E0 100 S0 (EncodedScalar (JBool False) ''k3yfalse'') =
     Inl (Thrown ''Invalid token'') \<and>
   isAuthenticated E0 100 S0 (EncodedScalar (JBool False) ''forged'') \<noteq>
     Inl (Thrown ''Invalid token'') \<and>
   isAuthenticated E0 100 S0
     (createToken E0 50 \<lparr>claims_email = ''a@x.com'', claims_id = 1\<rparr>) \<noteq>
     Inl (Thrown ''Invalid token'')"
  using
    invalid_token_branch_only_falsy_payload [of E0 100 S0
      "EncodedScalar (JBool False) ''k3yfalse''"
      "\<lparr>jwt_payload = \<lparr>payload_email = ''a@x.com'', payload_id = 1,
                       payload_iat = 50, payload_exp = Some 86450\<rparr>,
        jwt_signature = ''k3ya@x.com''\<rparr>" 50
      "\<lparr>claims_email = ''a@x.com'', claims_id = 1\<rparr>"]
    invalid_token_branch_only_falsy_payload [of E0 100 S0
      "EncodedScalar (JBool False) ''forged''"
      "\<lparr>jwt_payload = \<lparr>payload_email = ''a@x.com'', payload_id = 1,
                       payload_iat = 50, payload_exp = Some 86450\<rparr>,
        jwt_signature = ''k3ya@x.com''\<rparr>" 50
      "\<lparr>claims_email = ''a@x.com'', claims_id = 1\<rparr>"]
  by (simp add: E0_def)

subsection \<open>The administrator check\<close>

text \<open>The outcomes of \<^verbatim>\<open>isAdmin\<close>, by what the two lookups find.\<close>

lemma isAdmin_no_user:
  "User_findByPk S userId = None \<Longrightarrow> UserService_isAdmin S userId = Inl (TypeError ''hasRole'')"
  by (simp add: UserService_isAdmin_def UserRepository_isAdmin_def)

lemma isAdmin_no_role:
  "User_findByPk S userId = Some u \<Longrightarrow> Role_findOne S ''ADMIN'' = None \<Longrightarrow>
   UserService_isAdmin S userId = Inr False"
  by (simp add: UserService_isAdmin_def UserRepository_isAdmin_def hasRole_def)

lemma isAdmin_edge:
  "User_findByPk S userId = Some u \<Longrightarrow> Role_findOne S ''ADMIN'' = Some a \<Longrightarrow>
   UserService_isAdmin S userId = Inr ((user_id u, role_id a) \<in> set (user_roles S))"
  by (simp add: UserService_isAdmin_def UserRepository_isAdmin_def hasRole_def)

text \<open>
  C7. The check for an identity that no account has should fail with the error for a
  missing account. Here no row has the id 7: \<^verbatim>\<open>findByPk\<close> returns \<^verbatim>\<open>null\<close>, and
  \<^verbatim>\<open>isAdmin\<close> fails on calling \<^verbatim>\<open>user.hasRole\<close>, with the runtime's \<^verbatim>\<open>TypeError\<close>.
\<close>

theorem isAdmin_unknown_id_TypeError:
  "UserService_isAdmin S0 7 = Inl (TypeError ''hasRole'')"
  by (simp add: UserService_isAdmin_def UserRepository_isAdmin_def User_findByPk_def S0_def)

text \<open>
  C10. The answer of \<^verbatim>\<open>isAdmin\<close> depends on the store through the \<^verbatim>\<open>User\<close> table, the
  role named \<^verbatim>\<open>'ADMIN'\<close> and the memberships of that one role only: two stores that agree
  on these give the same answer for every id, whatever other roles and memberships they
  hold. The function takes the user id and no role name.
\<close>

theorem isAdmin_only_ADMIN:
  assumes "users S' = users S"
    and "Role_findOne S' ''ADMIN'' = Role_findOne S ''ADMIN''"
    and "\<forall>a. Role_findOne S ''ADMIN'' = Some a \<longrightarrow>
           {u. (u, role_id a) \<in> set (user_roles S')} = {u. (u, role_id a) \<in> set (user_roles S)}"
  shows "UserService_isAdmin S' userId = UserService_isAdmin S userId"
proof (cases "Role_findOne S ''ADMIN''")
  case None
  with assms(1,2) show ?thesis
    by (simp add: UserService_isAdmin_def UserRepository_isAdmin_def User_findByPk_def
          hasRole_def split: option.splits)
next
  case (Some a)
  with assms(3) have "\<And>u. (u, role_id a) \<in> set (user_roles S') \<longleftrightarrow>
                          (u, role_id a) \<in> set (user_roles S)"
    by blast
  with Some assms(1,2) show ?thesis
    by (simp add: UserService_isAdmin_def UserRepository_isAdmin_def User_findByPk_def
          hasRole_def split: option.splits)
qed

text \<open>
  The witness: account 2 trades its membership of \<^verbatim>\<open>CUSTOMER\<close> for one of a new role
  \<^verbatim>\<open>SUPERUSER\<close>, and account 1 joins \<^verbatim>\<open>CUSTOMER\<close>; the answers stay as they were.
\<close>

theorem isAdmin_only_ADMIN_witness:
  "users (S0\<lparr>roles := roles S0 @ [\<lparr>role_id = 3, role_name = ''SUPERUSER''\<rparr>],
              user_roles := [(1, 1), (1, 2), (2, 3)]\<rparr>) = users S0 \<and>
   Role_findOne (S0\<lparr>roles := roles S0 @ [\<lparr>role_id = 3, role_name = ''SUPERUSER''\<rparr>],
              user_roles := [(1, 1), (1, 2), (2, 3)]\<rparr>) ''ADMIN'' =
     Some \<lparr>role_id = 1, role_name = ''ADMIN''\<rparr> \<and>
   Role_findOne S0 ''ADMIN'' = Some \<lparr>role_id = 1, role_name = ''ADMIN''\<rparr> \<and>
   UserService_isAdmin (S0\<lparr>roles := roles S0 @ [\<lparr>role_id = 3, role_name = ''SUPERUSER''\<rparr>],
              user_roles := [(1, 1), (1, 2), (2, 3)]\<rparr>) 2 = UserService_isAdmin S0 2 \<and>
   UserService_isAdmin S0 2 = Inr False \<and> UserService_isAdmin S0 1 = Inr True"
proof -
  let ?S = "S0\<lparr>roles := roles S0 @ [\<lparr>role_id = 3, role_name = ''SUPERUSER''\<rparr>],
               user_roles := [(1, 1), (1, 2), (2, 3)]\<rparr>"
  have h1: "users ?S = users S0"
    by simp
  have a: "Role_findOne S0 ''ADMIN'' = Some \<lparr>role_id = 1, role_name = ''ADMIN''\<rparr>"
    by (simp add: Role_findOne_def S0_def)
  have a': "Role_findOne ?S ''ADMIN'' = Some \<lparr>role_id = 1, role_name = ''ADMIN''\<rparr>"
    by (simp add: Role_findOne_def S0_def)
  have h2: "Role_findOne ?S ''ADMIN'' = Role_findOne S0 ''ADMIN''"
    using a a' by simp
  have h3: "\<forall>a. Role_findOne S0 ''ADMIN'' = Some a \<longrightarrow>
           {u. (u, role_id a) \<in> set (user_roles ?S)} = {u. (u, role_id a) \<in> set (user_roles S0)}"
    using a by (auto simp: S0_def)
  have r2: "UserService_isAdmin S0 2 = Inr False"
    by (simp add: UserService_isAdmin_def UserRepository_isAdmin_def User_findByPk_def
          Role_findOne_def hasRole_def S0_def)
  have r1: "UserService_isAdmin S0 1 = Inr True"
    by (simp add: UserService_isAdmin_def UserRepository_isAdmin_def User_findByPk_def
          Role_findOne_def hasRole_def S0_def)
  show ?thesis
    using h1 a a' r1 r2 isAdmin_only_ADMIN [OF h1 h2 h3, of 2] by simp
qed

end
